theory Spec2Isabelle
  imports Complex_Main "HOL-Library.Word"
begin

section \<open>The grid container of data_structures.hpp\<close>

text \<open>
  The class template \<open>array2d<T>\<close> stores a \<open>std::vector< std::vector<T> >\<close> (one inner
  vector per row, addressed \<open>data[y][x]\<close>) and five public metadata fields.

  Conventions of the embedding.
  \<^item> C++ \<open>int\<close> and \<open>long\<close> values are HOL integers; the three conversions the source
    performs are written out: \<open>long\<close> to \<open>int\<close> at the call of \<open>resize\<close> inside
    \<open>copyprops\<close>, \<open>int\<close> to \<open>unsigned long long\<close> in the diagnostic of \<open>resize\<close>
    (a 64-bit word), and \<open>int\<close> to \<open>size_t\<close> for the vector sizes of \<open>resize\<close>.
    Sizes are those of the common LP64 and ILP32 data models.
  \<^item> The unchecked \<open>operator[]\<close> of a vector is the lookup \<open>vec_at\<close>, which is
    \<open>None\<close> outside the vector; a member function that performs such a read or write
    returns \<open>Inl Out_of_range\<close> (the C++ behaviour is undefined there).
  \<^item> The template parameter \<open>T\<close> is passed as a descriptor: which C++ type it is and
    how an \<open>int\<close> value converts to it. The implicit conversion from \<open>U\<close> to \<open>T\<close> of
    the cross-type copy is a parameter of \<open>copyprops\<close>.
  \<^item> For \<open>T = bool\<close> the rows are the packed \<open>std::vector<bool>\<close>, whose \<open>operator[]\<close>
    returns a \<open>bool\<close> by value or a proxy object, not a \<open>bool&\<close>; the two overloads of
    \<open>operator()\<close> say what follows from that.
  \<^item> The \<open>double\<close> fields are only ever assigned the literal \<open>-1\<close> or copied, so they
    are modelled by the reals they denote. Memory exhaustion is not modelled.
\<close>

subsection \<open>Element types\<close>

datatype ctype = T_double | T_float | T_char | T_signed_char | T_bool | T_unsigned_int | T_int

fun sizeof :: "ctype \<Rightarrow> nat" where
  "sizeof T_double = 8"
| "sizeof T_float = 4"
| "sizeof T_char = 1"
| "sizeof T_signed_char = 1"
| "sizeof T_bool = 1"
| "sizeof T_unsigned_int = 4"
| "sizeof T_int = 4"

record 'a elem =
  ctype_of :: ctype
  from_int :: "int \<Rightarrow> 'a"

text \<open>The instantiations named by the typedefs at the end of the header, and plain \<open>char\<close>.\<close>

definition double_2d :: "real elem" where
  "double_2d = \<lparr>ctype_of = T_double, from_int = real_of_int\<rparr>"

definition float_2d :: "real elem" where
  "float_2d = \<lparr>ctype_of = T_float, from_int = real_of_int\<rparr>"

definition char_2d :: "8 word elem" where
  "char_2d = \<lparr>ctype_of = T_signed_char, from_int = word_of_int\<rparr>"

definition bool_2d :: "bool elem" where
  "bool_2d = \<lparr>ctype_of = T_bool, from_int = (\<lambda>i. i \<noteq> 0)\<rparr>"

definition uint_2d :: "32 word elem" where
  "uint_2d = \<lparr>ctype_of = T_unsigned_int, from_int = word_of_int\<rparr>"

definition int_2d :: "32 word elem" where
  "int_2d = \<lparr>ctype_of = T_int, from_int = word_of_int\<rparr>"

definition plain_char :: "8 word elem" where
  "plain_char = \<lparr>ctype_of = T_char, from_int = word_of_int\<rparr>"


subsection \<open>The class\<close>

datatype error = Out_of_range | Length_error | No_specialization | Ill_formed | Dangling_reference

record 'a array2d =
  data :: "'a list list"
  cellsize :: real
  xllcorner :: real
  yllcorner :: real
  data_cells :: int
  no_data :: 'a

definition vec_at :: "'b list \<Rightarrow> int \<Rightarrow> 'b option" where
  "vec_at xs i = (if 0 \<le> i \<and> i < int (length xs) then Some (xs ! nat i) else None)"

text \<open>\<open>array2d<T>::array2d()\<close>: the vector starts empty.\<close>

definition array2d_new :: "'a elem \<Rightarrow> 'a array2d" where
  "array2d_new T =
     \<lparr>data = [], cellsize = - 1, xllcorner = - 1, yllcorner = - 1, data_cells = - 1,
      no_data = from_int T (- 1)\<rparr>"

text \<open>\<open>width()\<close> is \<open>data[0].size()\<close>, \<open>height()\<close> is \<open>data.size()\<close>.\<close>

definition width :: "'a array2d \<Rightarrow> error + int" where
  "width g = (case vec_at (data g) 0 of None \<Rightarrow> Inl Out_of_range
              | Some row \<Rightarrow> Inr (int (length row)))"

definition height :: "'a array2d \<Rightarrow> int" where
  "height g = int (length (data g))"

text \<open>The three predicates, with the short-circuit evaluation of \<open>&&\<close> and \<open>||\<close>.\<close>

definition in_grid :: "'a array2d \<Rightarrow> int \<Rightarrow> int \<Rightarrow> error + bool" where
  "in_grid g x y =
     (if x \<ge> 0 \<and> y \<ge> 0
      then (case width g of Inl e \<Rightarrow> Inl e | Inr w \<Rightarrow> Inr (x < w \<and> y < height g))
      else Inr False)"

definition interior_grid :: "'a array2d \<Rightarrow> int \<Rightarrow> int \<Rightarrow> error + bool" where
  "interior_grid g x y =
     (if x \<ge> 1 \<and> y \<ge> 1
      then (case width g of Inl e \<Rightarrow> Inl e | Inr w \<Rightarrow> Inr (x < w - 1 \<and> y < height g - 1))
      else Inr False)"

definition edge_grid :: "'a array2d \<Rightarrow> int \<Rightarrow> int \<Rightarrow> error + bool" where
  "edge_grid g x y =
     (if x = 0 \<or> y = 0 then Inr True
      else (case width g of Inl e \<Rightarrow> Inl e | Inr w \<Rightarrow> Inr (x = w - 1 \<or> y = height g - 1)))"

text \<open>
  \<open>operator()(x, y)\<close> is \<open>data[y][x]\<close>, returned as \<open>const T&\<close> by the const overload
  and as \<open>T&\<close> by the other.
  \<^item> The const overload is a read. For \<open>T = bool\<close> the expression \<open>data[y][x]\<close> is a
    \<open>bool\<close> by value, so the reference returned is to a temporary and reading through it is
    undefined: \<open>Inl Dangling_reference\<close>.
  \<^item> The other overload gives the cell to assign to. For \<open>T = bool\<close> it would bind
    \<open>bool&\<close> to the proxy of \<open>std::vector<bool>\<close>, which is ill-formed: a member function
    that uses it does not compile, \<open>Inl Ill_formed\<close>.
\<close>

definition at_xy :: "'a elem \<Rightarrow> 'a list list \<Rightarrow> int \<Rightarrow> int \<Rightarrow> error + 'a" where
  "at_xy T d x y =
     (case vec_at d y of None \<Rightarrow> Inl Out_of_range
      | Some row \<Rightarrow> (case vec_at row x of None \<Rightarrow> Inl Out_of_range
                     | Some v \<Rightarrow> if ctype_of T = T_bool then Inl Dangling_reference else Inr v))"

definition set_xy :: "'a elem \<Rightarrow> 'a list list \<Rightarrow> int \<Rightarrow> int \<Rightarrow> 'a \<Rightarrow> error + 'a list list" where
  "set_xy T d x y val =
     (if ctype_of T = T_bool then Inl Ill_formed
      else (case vec_at d y of None \<Rightarrow> Inl Out_of_range
            | Some row \<Rightarrow> (case vec_at row x of None \<Rightarrow> Inl Out_of_range
                           | Some v \<Rightarrow> Inr (d[nat y := row[nat x := val]]))))"

definition cell :: "'a elem \<Rightarrow> 'a array2d \<Rightarrow> int \<Rightarrow> int \<Rightarrow> error + 'a" where
  "cell T g x y = at_xy T (data g) x y"

text \<open>\<open>clear()\<close> is \<open>data.clear()\<close>.\<close>

definition clear :: "'a array2d \<Rightarrow> 'a array2d" where
  "clear g = g\<lparr>data := []\<rparr>"

text \<open>
  \<open>resize(width, height)\<close>. The figure printed to stderr is
  \<open>(unsigned long long)width * (unsigned long long)height * (unsigned long long)sizeof(T) / 1024 / 1024\<close>,
  computed on 64-bit words; it is printed on every call, before the vector is touched.
\<close>

definition ull :: "int \<Rightarrow> 64 word" where
  "ull i = word_of_int i"

definition resize_ram_mb :: "'a elem \<Rightarrow> int \<Rightarrow> int \<Rightarrow> 64 word" where
  "resize_ram_mb T w h = ull w * ull h * ull (int (sizeof (ctype_of T))) div 1024 div 1024"

text \<open>
  \<open>std::vector::resize(n, v)\<close> keeps the first \<open>n\<close> elements as they are and appends
  copies of \<open>v\<close> up to length \<open>n\<close>. \<open>std::vector<T>(width)\<close> holds \<open>width\<close>
  value-initialised elements. A negative \<open>int\<close> converts to a \<open>size_t\<close> above
  \<open>max_size()\<close>, and the vector throws (\<open>std::length_error\<close>, or
  \<open>std::bad_alloc\<close> in older libraries) instead of resizing.
\<close>

definition vector_resize :: "'b list \<Rightarrow> nat \<Rightarrow> 'b \<Rightarrow> 'b list" where
  "vector_resize xs n v = take n xs @ replicate (n - length xs) v"

definition resize :: "'a elem \<Rightarrow> int \<Rightarrow> int \<Rightarrow> 'a array2d \<Rightarrow> error + 'a array2d" where
  "resize T w h g =
     (if w < 0 \<or> h < 0 then Inl Length_error
      else Inr (g\<lparr>data := vector_resize (data g) (nat h) (replicate (nat w) (from_int T 0))\<rparr>))"




text \<open>
  \<open>init(val)\<close>: \<open>for x in [0, width())\<close>, \<open>for y in [0, height())\<close>,
  \<open>operator()(x, y) = val\<close>. The writes leave every vector's size as it is, so the two
  bounds are read once. The OpenMP pragma distributes the iterations of the outer loop;
  they write disjoint cells, and the model runs them in order. The body uses the non-const
  \<open>operator()\<close>, so for \<open>T = bool\<close> the function does not compile.
\<close>

function init_y ::
  "'a elem \<Rightarrow> 'a \<Rightarrow> int \<Rightarrow> int \<Rightarrow> int \<Rightarrow> 'a list list \<Rightarrow> error + 'a list list" where
  "init_y T val x y h d =
     (if y < h
      then (case set_xy T d x y val of Inl e \<Rightarrow> Inl e
            | Inr d' \<Rightarrow> init_y T val x (y + 1) h d')
      else Inr d)"
  by pat_completeness auto
termination
  by (relation "measure (\<lambda>(T, val, x, y, h, d). nat (h - y))") auto

function init_x ::
  "'a elem \<Rightarrow> 'a \<Rightarrow> int \<Rightarrow> int \<Rightarrow> int \<Rightarrow> 'a list list \<Rightarrow> error + 'a list list" where
  "init_x T val x w h d =
     (if x < w
      then (case init_y T val x 0 h d of Inl e \<Rightarrow> Inl e
            | Inr d' \<Rightarrow> init_x T val (x + 1) w h d')
      else Inr d)"
  by pat_completeness auto
termination
  by (relation "measure (\<lambda>(T, val, x, w, h, d). nat (w - x))") auto

definition init :: "'a elem \<Rightarrow> 'a \<Rightarrow> 'a array2d \<Rightarrow> error + 'a array2d" where
  "init T val g =
     (if ctype_of T = T_bool then Inl Ill_formed
      else (case width g of Inl e \<Rightarrow> Inl e
            | Inr w \<Rightarrow> (case init_x T val 0 w (height g) (data g) of Inl e \<Rightarrow> Inl e
                        | Inr d' \<Rightarrow> Inr (g\<lparr>data := d'\<rparr>))))"

text \<open>
  \<open>estimated_output_size()\<close> is declared for every \<open>T\<close> and defined by explicit
  specialisation for \<open>float\<close>, \<open>char\<close>, \<open>bool\<close> and \<open>unsigned int\<close> only; a call
  for another \<open>T\<close> has no definition to link against. A grid held in memory has far
  fewer than \<open>2^63 / 9\<close> cells, so the \<open>long\<close> products are exact.
\<close>

definition estimated_output_size :: "'a elem \<Rightarrow> 'a array2d \<Rightarrow> error + int" where
  "estimated_output_size T g =
     (case ctype_of T of
        T_float \<Rightarrow> (case width g of Inl e \<Rightarrow> Inl e | Inr w \<Rightarrow> Inr (9 * w * height g))
      | T_char \<Rightarrow> (case width g of Inl e \<Rightarrow> Inl e | Inr w \<Rightarrow> Inr (4 * w * height g))
      | T_bool \<Rightarrow> (case width g of Inl e \<Rightarrow> Inl e | Inr w \<Rightarrow> Inr (2 * w * height g))
      | T_unsigned_int \<Rightarrow> (case width g of Inl e \<Rightarrow> Inl e | Inr w \<Rightarrow> Inr (9 * w * height g))
      | _ \<Rightarrow> Inl No_specialization)"

text \<open>
  \<open>operator==\<close>: unequal dimensions return false; otherwise the cells are compared in
  the order of the two loops, each through the const \<open>operator()\<close>, and the first unequal
  pair returns false.
\<close>

function eq_y ::
  "'a elem \<Rightarrow> 'a list list \<Rightarrow> 'a list list \<Rightarrow> int \<Rightarrow> int \<Rightarrow> int \<Rightarrow> error + bool" where
  "eq_y T d other x y h =
     (if y < h
      then (case at_xy T d x y of Inl e \<Rightarrow> Inl e
            | Inr a \<Rightarrow> (case at_xy T other x y of Inl e \<Rightarrow> Inl e
                        | Inr b \<Rightarrow> if a \<noteq> b then Inr False else eq_y T d other x (y + 1) h))
      else Inr True)"
  by pat_completeness auto
termination
  by (relation "measure (\<lambda>(T, d, other, x, y, h). nat (h - y))") auto

function eq_x ::
  "'a elem \<Rightarrow> 'a list list \<Rightarrow> 'a list list \<Rightarrow> int \<Rightarrow> int \<Rightarrow> int \<Rightarrow> error + bool" where
  "eq_x T d other x w h =
     (if x < w
      then (case eq_y T d other x 0 h of Inl e \<Rightarrow> Inl e
            | Inr b \<Rightarrow> if b then eq_x T d other (x + 1) w h else Inr False)
      else Inr True)"
  by pat_completeness auto
termination
  by (relation "measure (\<lambda>(T, d, other, x, w, h). nat (w - x))") auto

definition equal_array2d :: "'a elem \<Rightarrow> 'a array2d \<Rightarrow> 'a array2d \<Rightarrow> error + bool" where
  "equal_array2d T g other =
     (case width g of Inl e \<Rightarrow> Inl e
      | Inr w \<Rightarrow> (case width other of Inl e \<Rightarrow> Inl e
                  | Inr w' \<Rightarrow> if w \<noteq> w' \<or> height g \<noteq> height other then Inr False
                             else eq_x T (data g) (data other) 0 w (height g)))"

text \<open>Storage in which every row has the length of row 0.\<close>

definition rectangular :: "'a array2d \<Rightarrow> bool" where
  "rectangular g = list_all (\<lambda>row. length row = length (hd (data g))) (data g)"


text \<open>
  For the counting statements about the predicates: the number of coordinates of
  \<open>[0, w) \<times> [0, h)\<close> at which a predicate returns true.
\<close>

definition count_true :: "(int \<Rightarrow> int \<Rightarrow> error + bool) \<Rightarrow> int \<Rightarrow> int \<Rightarrow> nat" where
  "count_true p w h =
     length (filter (\<lambda>(x, y). p x y = Inr True) (List.product [0..w - 1] [0..h - 1]))"

declare init_y.simps [simp del] init_x.simps [simp del] eq_y.simps [simp del] eq_x.simps [simp del]

section \<open>Width and height\<close>

text \<open>
  C10. \<open>width()\<close> returns the length of row 0: on every grid with \<open>height() > 0\<close> the
  lookup of row 0 is in bounds and \<open>width()\<close> is that row's length; on a grid without
  rows, such as a default-constructed grid or any grid after \<open>clear()\<close>, the lookup of
  row 0 is out of range.
\<close>

theorem width_reads_row_zero:
  "(0 < height g \<longrightarrow>
      vec_at (data g) 0 = Some (data g ! 0) \<and> width g = Inr (int (length (data g ! 0))))
   \<and> (height g = 0 \<longrightarrow> vec_at (data g) 0 = None \<and> width g = Inl Out_of_range)
   \<and> height (array2d_new T) = 0 \<and> vec_at (data (array2d_new T)) 0 = None
   \<and> width (array2d_new T) = Inl Out_of_range
   \<and> height (clear g) = 0 \<and> vec_at (data (clear g)) 0 = None
   \<and> width (clear g) = Inl Out_of_range"
  by (simp add: width_def height_def vec_at_def array2d_new_def clear_def)

text \<open>The theorem at a grid of two rows of three cells, and at the default-constructed grid.\<close>

theorem width_reads_row_zero_witness:
  "0 < height \<lparr>data = [[1, 2, 3], [4, 5, 6 :: 32 word]], cellsize = 1, xllcorner = 0,
        yllcorner = 0, data_cells = 6, no_data = 0\<rparr>
   \<and> width \<lparr>data = [[1, 2, 3], [4, 5, 6 :: 32 word]], cellsize = 1, xllcorner = 0,
        yllcorner = 0, data_cells = 6, no_data = 0\<rparr> = Inr 3
   \<and> height (array2d_new int_2d) = 0
   \<and> width (array2d_new int_2d) = Inl Out_of_range"
  using width_reads_row_zero [of "\<lparr>data = [[1, 2, 3], [4, 5, 6 :: 32 word]], cellsize = 1,
        xllcorner = 0, yllcorner = 0, data_cells = 6, no_data = 0\<rparr>" int_2d]
    width_reads_row_zero [of "array2d_new int_2d" int_2d]
  by (simp add: height_def)

section \<open>Default construction\<close>

lemma default_constructed_fields:
  "data (array2d_new T) = [] \<and> height (array2d_new T) = 0
   \<and> cellsize (array2d_new T) = - 1 \<and> xllcorner (array2d_new T) = - 1
   \<and> yllcorner (array2d_new T) = - 1 \<and> data_cells (array2d_new T) = - 1
   \<and> no_data (array2d_new T) = from_int T (- 1)"
  by (simp add: height_def array2d_new_def)

text \<open>
  C7. A default-constructed grid should have \<open>width() == 0\<close>, \<open>height() == 0\<close> and
  \<open>-1\<close> in every metadata field. For a default-constructed \<open>int_2d\<close>, \<open>height()\<close> is 0
  and the five fields hold \<open>-1\<close>, each in its own type; \<open>width()\<close> does not return 0: it
  looks up row 0 of a vector that has no rows.
\<close>

theorem default_constructed_width:
  "height (array2d_new int_2d) = 0
   \<and> cellsize (array2d_new int_2d) = - 1 \<and> xllcorner (array2d_new int_2d) = - 1
   \<and> yllcorner (array2d_new int_2d) = - 1 \<and> data_cells (array2d_new int_2d) = - 1
   \<and> no_data (array2d_new int_2d) = - 1
   \<and> vec_at (data (array2d_new int_2d)) 0 = None
   \<and> width (array2d_new int_2d) = Inl Out_of_range"
  by (simp add: width_def height_def vec_at_def array2d_new_def int_2d_def)

section \<open>clear\<close>

lemma clear_frame:
  "data (clear g) = [] \<and> height (clear g) = 0
   \<and> cellsize (clear g) = cellsize g \<and> xllcorner (clear g) = xllcorner g
   \<and> yllcorner (clear g) = yllcorner g \<and> data_cells (clear g) = data_cells g
   \<and> no_data (clear g) = no_data g"
  by (simp add: height_def clear_def)

text \<open>
  C8. After \<open>clear()\<close> the dimensions should be 0 by 0 and the five metadata fields
  unchanged. For a grid of two rows of two cells, \<open>height()\<close> is 0 after the call and the
  fields are unchanged; \<open>width()\<close> does not return 0: it looks up row 0 of the emptied
  vector.
\<close>

theorem clear_width:
  "clear \<lparr>data = [[1, 2], [3, 4 :: 32 word]], cellsize = 30, xllcorner = 5, yllcorner = 7,
        data_cells = 4, no_data = 9\<rparr>
     = \<lparr>data = [], cellsize = 30, xllcorner = 5, yllcorner = 7, data_cells = 4, no_data = 9\<rparr>
   \<and> height \<lparr>data = [], cellsize = 30, xllcorner = 5, yllcorner = 7, data_cells = 4,
        no_data = 9 :: 32 word\<rparr> = 0
   \<and> vec_at (data \<lparr>data = [], cellsize = 30, xllcorner = 5, yllcorner = 7, data_cells = 4,
        no_data = 9 :: 32 word\<rparr>) 0 = None
   \<and> width \<lparr>data = [], cellsize = 30, xllcorner = 5, yllcorner = 7, data_cells = 4,
        no_data = 9 :: 32 word\<rparr> = Inl Out_of_range"
  by (simp add: width_def height_def vec_at_def clear_def)

section \<open>resize\<close>

text \<open>
  C1. After \<open>resize(w, h)\<close> the grid should have \<open>width() == w\<close> and \<open>height() == h\<close>
  whatever its dimensions were before. The code resizes the outer vector only: rows that
  exist keep their length. Here a default-constructed grid is resized to 2 by 2 and then to
  3 by 3; the result has two rows of two cells and one of three, and \<open>width()\<close> is 2.
\<close>

theorem resize_keeps_old_rows:
  "resize int_2d 2 2 (array2d_new int_2d)
     = Inr \<lparr>data = [[0, 0], [0, 0]], cellsize = - 1, xllcorner = - 1, yllcorner = - 1,
            data_cells = - 1, no_data = - 1\<rparr>
   \<and> resize int_2d 3 3 \<lparr>data = [[0, 0], [0, 0]], cellsize = - 1, xllcorner = - 1,
            yllcorner = - 1, data_cells = - 1, no_data = - 1\<rparr>
     = Inr \<lparr>data = [[0, 0], [0, 0], [0, 0, 0]], cellsize = - 1, xllcorner = - 1,
            yllcorner = - 1, data_cells = - 1, no_data = - 1\<rparr>
   \<and> width \<lparr>data = [[0, 0], [0, 0], [0, 0, 0 :: 32 word]], cellsize = - 1, xllcorner = - 1,
            yllcorner = - 1, data_cells = - 1, no_data = - 1 :: 32 word\<rparr> = Inr 2"
  by (simp add: resize_def vector_resize_def array2d_new_def int_2d_def width_def vec_at_def
      numeral_2_eq_2 numeral_3_eq_3)

text \<open>
  In general, a grid that holds a row keeps the width it has through any \<open>resize\<close> to a
  positive height; on a grid without rows \<open>resize\<close> does build \<open>h\<close> rows of \<open>w\<close> cells.
\<close>

lemma resize_keeps_width:
  assumes "data g = row # rows" and "0 \<le> w" and "0 < h"
  shows "\<exists>g'. resize T w h g = Inr g' \<and> width g' = Inr (int (length row)) \<and> height g' = h"
proof -
  obtain n where n: "nat h = Suc n"
    using assms(3) by (cases "nat h") simp_all
  have "0 \<le> h"
    using assms(3) by simp
  then show ?thesis
    using assms(1,2) n
    by (simp add: resize_def vector_resize_def width_def height_def vec_at_def)
qed



subsection \<open>The diagnostic\<close>

lemma uint_ull: "0 \<le> k \<Longrightarrow> k < 2 ^ 64 \<Longrightarrow> uint (ull k) = k"
  by (simp add: ull_def uint_word_of_int take_bit_int_eq_self)

lemma ull_mult: "ull a * ull b = ull (a * b)"
  by (simp add: ull_def)

lemma floor_mb: "\<lfloor>real_of_int k / 1024 / 1024\<rfloor> = k div 1024 div 1024"
proof -
  have "real_of_int k / 1024 / 1024 = real_of_int k / real_of_int (1024 * 1024)"
    by simp
  then have "\<lfloor>real_of_int k / 1024 / 1024\<rfloor> = k div (1024 * 1024)"
    by (simp only: floor_divide_of_int_eq)
  also have "\<dots> = k div 1024 div 1024"
    by (simp add: zdiv_zmult2_eq)
  finally show ?thesis .
qed

lemma ram_exact:
  assumes "0 \<le> w" and "0 \<le> h" and "w * h * int (sizeof (ctype_of T)) < 2 ^ 64"
  shows "uint (resize_ram_mb T w h)
         = \<lfloor>real_of_int (w * h * int (sizeof (ctype_of T))) / 1024 / 1024\<rfloor>"
proof -
  let ?k = "w * h * int (sizeof (ctype_of T))"
  have k0: "0 \<le> ?k"
    using assms by simp
  have "resize_ram_mb T w h = ull ?k div 1024 div 1024"
    by (simp only: resize_ram_mb_def ull_mult)
  then have "uint (resize_ram_mb T w h) = uint (ull ?k) div 1024 div 1024"
    by (simp add: uint_div)
  then show ?thesis
    by (simp only: uint_ull [OF k0 assms(3)] floor_mb)
qed

lemma small_elem_no_wrap:
  assumes "0 \<le> w" and "w < 2 ^ 31" and "0 \<le> h" and "h < 2 ^ 31"
    and "sizeof (ctype_of T) \<le> 4"
  shows "w * h * int (sizeof (ctype_of T)) < 2 ^ 64"
proof -
  have "w * h \<le> 2147483647 * 2147483647"
    using assms by (intro mult_mono) simp_all
  moreover have "int (sizeof (ctype_of T)) \<le> 4"
    using assms by simp
  ultimately have "w * h * int (sizeof (ctype_of T)) \<le> (2147483647 * 2147483647) * 4"
    using assms by (intro mult_mono) simp_all
  then show ?thesis
    by simp
qed

lemma ram_double_int_max:
  "resize_ram_mb double_2d 2147483647 2147483647 = 17592186011648"
  by (simp add: resize_ram_mb_def ull_def double_2d_def)

lemma floor_double_int_max:
  "\<lfloor>real_of_int (2147483647 * 2147483647 * int (sizeof (ctype_of double_2d))) / 1024 / 1024\<rfloor>
   = 35184372056064"
  by (simp add: floor_mb double_2d_def)

text \<open>
  The claim C9 says the figure is exact for all non-negative dimensions. For \<open>double\<close>
  elements and both dimensions \<open>INT_MAX\<close> the byte count is above \<open>2^64\<close> and the
  64-bit product wraps: the message reports 17592186011648 MB where the formula gives
  35184372056064.
\<close>

theorem resize_ram_mb_counterexample:
  "uint (resize_ram_mb double_2d 2147483647 2147483647)
   \<noteq> \<lfloor>real_of_int (2147483647 * 2147483647 * int (sizeof (ctype_of double_2d))) / 1024 / 1024\<rfloor>"
  unfolding ram_double_int_max floor_double_int_max by simp

text \<open>
  C9, as amended. For \<open>int\<close> dimensions \<open>w, h \<ge> 0\<close> the figure printed by
  \<open>resize(w, h)\<close> is \<open>floor(w * h * sizeof(T) / 1024 / 1024)\<close> whenever the byte count
  \<open>w * h * sizeof(T)\<close> is below \<open>2^64\<close>, which is always the case for element types of at
  most four bytes.
\<close>

theorem resize_ram_mb_exact:
  assumes "0 \<le> w" and "w < 2 ^ 31" and "0 \<le> h" and "h < 2 ^ 31"
    and "sizeof (ctype_of T) \<le> 4 \<or> w * h * int (sizeof (ctype_of T)) < 2 ^ 64"
  shows "uint (resize_ram_mb T w h)
         = \<lfloor>real_of_int (w * h * int (sizeof (ctype_of T))) / 1024 / 1024\<rfloor>"
proof -
  have "w * h * int (sizeof (ctype_of T)) < 2 ^ 64"
    using assms small_elem_no_wrap [of w h T] by blast
  then show ?thesis
    using assms(1,3) by (rule ram_exact [rotated 2])
qed

text \<open>A grid of 30000 by 30000 \<open>double\<close> cells: 6866 MB.\<close>

theorem resize_ram_mb_exact_witness:
  "(0 :: int) \<le> 30000 \<and> (30000 :: int) < 2 ^ 31
   \<and> 30000 * 30000 * int (sizeof (ctype_of double_2d)) < 2 ^ 64
   \<and> uint (resize_ram_mb double_2d 30000 30000)
       = \<lfloor>real_of_int (30000 * 30000 * int (sizeof (ctype_of double_2d))) / 1024 / 1024\<rfloor>
   \<and> \<lfloor>real_of_int (30000 * 30000 * int (sizeof (ctype_of double_2d))) / 1024 / 1024\<rfloor> = 6866"
proof -
  have b: "30000 * 30000 * int (sizeof (ctype_of double_2d)) < 2 ^ 64"
    by (simp add: double_2d_def)
  have f: "\<lfloor>real_of_int (30000 * 30000 * int (sizeof (ctype_of double_2d))) / 1024 / 1024\<rfloor> = 6866"
    by (simp add: floor_mb double_2d_def)
  show ?thesis
    using resize_ram_mb_exact [of 30000 30000 double_2d] b f by simp
qed

section \<open>The coordinate predicates\<close>

lemma upto_0_4: "[0..4::int] = [0, 1, 2, 3, 4]"
  by code_simp

lemma interior_grid_5:
  "width g = Inr 5 \<Longrightarrow> height g = 5 \<Longrightarrow>
   interior_grid g x y = Inr (x \<in> {1, 2, 3} \<and> y \<in> {1, 2, 3})"
  by (auto simp add: interior_grid_def)

lemma edge_grid_5:
  "width g = Inr 5 \<Longrightarrow> height g = 5 \<Longrightarrow>
   edge_grid g x y = Inr (x = 0 \<or> y = 0 \<or> x = 4 \<or> y = 4)"
  by (auto simp add: edge_grid_def)

lemma in_grid_5:
  "width g = Inr 5 \<Longrightarrow> height g = 5 \<Longrightarrow>
   in_grid g x y = Inr (0 \<le> x \<and> 0 \<le> y \<and> x < 5 \<and> y < 5)"
  by (auto simp add: in_grid_def)

lemma count_interior_5:
  assumes "width g = Inr 5" and "height g = 5"
  shows "count_true (interior_grid g) 5 5 = 9"
  unfolding count_true_def by (simp add: interior_grid_5 [OF assms] upto_0_4)

lemma count_edge_5:
  assumes "width g = Inr 5" and "height g = 5"
  shows "count_true (edge_grid g) 5 5 = 16"
  unfolding count_true_def by (simp add: edge_grid_5 [OF assms] upto_0_4)

lemma count_in_grid_5:
  assumes "width g = Inr 5" and "height g = 5"
  shows "count_true (in_grid g) 5 5 = 25"
  unfolding count_true_def by (simp add: in_grid_5 [OF assms] upto_0_4)

lemma interior_xor_edge:
  assumes "in_grid g x y = Inr True"
  shows "(interior_grid g x y = Inr True \<and> edge_grid g x y = Inr False)
         \<or> (interior_grid g x y = Inr False \<and> edge_grid g x y = Inr True)"
  using assms
  by (auto simp add: in_grid_def interior_grid_def edge_grid_def split: if_splits sum.splits)

lemma grid_5x5_dims:
  "width \<lparr>data = replicate 5 (replicate 5 False), cellsize = 1, xllcorner = 0, yllcorner = 0,
          data_cells = 25, no_data = True\<rparr> = Inr 5
   \<and> height \<lparr>data = replicate 5 (replicate 5 False), cellsize = 1, xllcorner = 0, yllcorner = 0,
          data_cells = 25, no_data = True\<rparr> = 5"
  by (simp add: width_def height_def vec_at_def)

text \<open>
  The claim C3 counts 16 interior and 9 edge coordinates in a grid of 5 by 5. The numbers
  are the other way round: 9 coordinates are interior and 16 lie on the edge.
\<close>

theorem interior_count_counterexample:
  "count_true (interior_grid \<lparr>data = replicate 5 (replicate 5 False), cellsize = 1,
       xllcorner = 0, yllcorner = 0, data_cells = 25, no_data = True\<rparr>) 5 5 \<noteq> 16
   \<and> count_true (edge_grid \<lparr>data = replicate 5 (replicate 5 False), cellsize = 1,
       xllcorner = 0, yllcorner = 0, data_cells = 25, no_data = True\<rparr>) 5 5 \<noteq> 9"
  using grid_5x5_dims by (simp add: count_interior_5 count_edge_5)

text \<open>
  C3, as amended. In a grid of 5 by 5, \<open>interior_grid(x, y)\<close> is true exactly for
  \<open>x, y \<in> {1, 2, 3}\<close>, which are 9 of the 25 in-grid coordinates, and among the in-grid
  coordinates \<open>edge_grid(x, y)\<close> is true exactly for the remaining 16. In every grid,
  exactly one of \<open>interior_grid\<close> and \<open>edge_grid\<close> is true at each in-grid coordinate.
\<close>

theorem interior_and_edge_partition:
  "(width g = Inr 5 \<and> height g = 5 \<longrightarrow>
      interior_grid g x y = Inr (x \<in> {1, 2, 3} \<and> y \<in> {1, 2, 3})
      \<and> count_true (interior_grid g) 5 5 = 9
      \<and> (in_grid g x y = Inr True \<longrightarrow>
           edge_grid g x y = Inr (\<not> (x \<in> {1, 2, 3} \<and> y \<in> {1, 2, 3})))
      \<and> count_true (edge_grid g) 5 5 = 16
      \<and> count_true (in_grid g) 5 5 = 25)
   \<and> (in_grid g x y = Inr True \<longrightarrow>
        (interior_grid g x y = Inr True \<and> edge_grid g x y = Inr False)
        \<or> (interior_grid g x y = Inr False \<and> edge_grid g x y = Inr True))"
proof (intro conjI impI)
  assume d: "width g = Inr 5 \<and> height g = 5"
  then show "interior_grid g x y = Inr (x \<in> {1, 2, 3} \<and> y \<in> {1, 2, 3})"
    by (simp add: interior_grid_5)
  from d show "count_true (interior_grid g) 5 5 = 9"
    by (simp add: count_interior_5)
  from d show "count_true (edge_grid g) 5 5 = 16"
    by (simp add: count_edge_5)
  from d show "count_true (in_grid g) 5 5 = 25"
    by (simp add: count_in_grid_5)
  assume "in_grid g x y = Inr True"
  with d show "edge_grid g x y = Inr (\<not> (x \<in> {1, 2, 3} \<and> y \<in> {1, 2, 3}))"
    by (auto simp add: edge_grid_5 in_grid_5)
next
  assume "in_grid g x y = Inr True"
  then show "(interior_grid g x y = Inr True \<and> edge_grid g x y = Inr False)
      \<or> (interior_grid g x y = Inr False \<and> edge_grid g x y = Inr True)"
    by (rule interior_xor_edge)
qed

text \<open>The theorem in a grid of 5 by 5 flags, at the centre and at a corner.\<close>

theorem interior_and_edge_partition_witness:
  "width \<lparr>data = replicate 5 (replicate 5 False), cellsize = 1, xllcorner = 0, yllcorner = 0,
          data_cells = 25, no_data = True\<rparr> = Inr 5
   \<and> in_grid \<lparr>data = replicate 5 (replicate 5 False), cellsize = 1, xllcorner = 0,
          yllcorner = 0, data_cells = 25, no_data = True\<rparr> 2 2 = Inr True
   \<and> interior_grid \<lparr>data = replicate 5 (replicate 5 False), cellsize = 1, xllcorner = 0,
          yllcorner = 0, data_cells = 25, no_data = True\<rparr> 2 2 = Inr True
   \<and> edge_grid \<lparr>data = replicate 5 (replicate 5 False), cellsize = 1, xllcorner = 0,
          yllcorner = 0, data_cells = 25, no_data = True\<rparr> 2 2 = Inr False
   \<and> in_grid \<lparr>data = replicate 5 (replicate 5 False), cellsize = 1, xllcorner = 0,
          yllcorner = 0, data_cells = 25, no_data = True\<rparr> 0 4 = Inr True
   \<and> interior_grid \<lparr>data = replicate 5 (replicate 5 False), cellsize = 1, xllcorner = 0,
          yllcorner = 0, data_cells = 25, no_data = True\<rparr> 0 4 = Inr False
   \<and> edge_grid \<lparr>data = replicate 5 (replicate 5 False), cellsize = 1, xllcorner = 0,
          yllcorner = 0, data_cells = 25, no_data = True\<rparr> 0 4 = Inr True
   \<and> count_true (interior_grid \<lparr>data = replicate 5 (replicate 5 False), cellsize = 1,
          xllcorner = 0, yllcorner = 0, data_cells = 25, no_data = True\<rparr>) 5 5 = 9
   \<and> count_true (edge_grid \<lparr>data = replicate 5 (replicate 5 False), cellsize = 1,
          xllcorner = 0, yllcorner = 0, data_cells = 25, no_data = True\<rparr>) 5 5 = 16"
  using grid_5x5_dims
    interior_and_edge_partition [of "\<lparr>data = replicate 5 (replicate 5 False), cellsize = 1,
      xllcorner = 0, yllcorner = 0, data_cells = 25, no_data = True\<rparr>" 2 2]
    interior_and_edge_partition [of "\<lparr>data = replicate 5 (replicate 5 False), cellsize = 1,
      xllcorner = 0, yllcorner = 0, data_cells = 25, no_data = True\<rparr>" 0 4]
  by (simp add: in_grid_5)

section \<open>estimated_output_size\<close>

text \<open>
  C6. \<open>estimated_output_size()\<close> should return 4 times \<open>width() * height()\<close> for the
  \<open>char_2d\<close> instantiation. The specialisation is written for \<open>array2d<char>\<close>, and
  \<open>char_2d\<close> is \<open>array2d<signed char>\<close>, a different type: for a \<open>char_2d\<close> grid of one
  cell there is no definition to call, where a plain \<open>char\<close> grid returns 4. A grid of
  100 by 100 \<open>float\<close> cells returns 90000.
\<close>

theorem char_2d_has_no_estimate:
  "resize char_2d 1 1 (array2d_new char_2d)
     = Inr \<lparr>data = [[0]], cellsize = - 1, xllcorner = - 1, yllcorner = - 1,
            data_cells = - 1, no_data = - 1\<rparr>
   \<and> estimated_output_size char_2d \<lparr>data = [[0]], cellsize = - 1, xllcorner = - 1,
            yllcorner = - 1, data_cells = - 1, no_data = - 1\<rparr> = Inl No_specialization
   \<and> estimated_output_size plain_char \<lparr>data = [[0]], cellsize = - 1, xllcorner = - 1,
            yllcorner = - 1, data_cells = - 1, no_data = - 1\<rparr> = Inr 4
   \<and> estimated_output_size float_2d \<lparr>data = replicate 100 (replicate 100 0), cellsize = - 1,
            xllcorner = - 1, yllcorner = - 1, data_cells = - 1, no_data = - 1\<rparr> = Inr 90000"
  by (simp add: resize_def vector_resize_def array2d_new_def char_2d_def plain_char_def
      float_2d_def estimated_output_size_def width_def height_def vec_at_def)

text \<open>The registered element types, on any grid: the multiplier times width times height.\<close>

lemma estimated_output_size_registered:
  assumes "width g = Inr w"
  shows "ctype_of T = T_float \<Longrightarrow> estimated_output_size T g = Inr (9 * w * height g)"
    and "ctype_of T = T_unsigned_int \<Longrightarrow> estimated_output_size T g = Inr (9 * w * height g)"
    and "ctype_of T = T_char \<Longrightarrow> estimated_output_size T g = Inr (4 * w * height g)"
    and "ctype_of T = T_bool \<Longrightarrow> estimated_output_size T g = Inr (2 * w * height g)"
    and "ctype_of T \<in> {T_double, T_signed_char, T_int} \<Longrightarrow>
         estimated_output_size T g = Inl No_specialization"
  using assms by (auto simp add: estimated_output_size_def)

section \<open>Cells of a grid with rows\<close>

lemma at_xy_in:
  "0 \<le> y \<Longrightarrow> y < int (length d) \<Longrightarrow> 0 \<le> x \<Longrightarrow> x < int (length (d ! nat y)) \<Longrightarrow>
   ctype_of T \<noteq> T_bool \<Longrightarrow> at_xy T d x y = Inr (d ! nat y ! nat x)"
  by (simp add: at_xy_def vec_at_def)

lemma set_xy_in:
  "0 \<le> y \<Longrightarrow> y < int (length d) \<Longrightarrow> 0 \<le> x \<Longrightarrow> x < int (length (d ! nat y)) \<Longrightarrow>
   ctype_of T \<noteq> T_bool \<Longrightarrow> set_xy T d x y v = Inr (d[nat y := (d ! nat y)[nat x := v]])"
  by (simp add: set_xy_def vec_at_def)

lemma width_rows: "0 < height g \<Longrightarrow> width g = Inr (int (length (data g ! 0)))"
  by (simp add: width_def height_def vec_at_def)

lemma rectangular_rows:
  assumes "rectangular g" and "0 < height g"
  shows "\<forall>r\<in>set (data g). int (length r) = int (length (data g ! 0))"
proof -
  have "data g \<noteq> []"
    using assms(2) by (auto simp add: height_def)
  then have "hd (data g) = data g ! 0"
    by (simp add: hd_conv_nth)
  with assms(1) show ?thesis
    by (simp add: rectangular_def list_all_iff)
qed

lemma in_grid_True:
  assumes "in_grid g x y = Inr True"
  shows "0 \<le> x \<and> 0 \<le> y \<and> y < height g \<and> 0 < height g \<and> x < int (length (data g ! 0))"
proof -
  have xy: "0 \<le> x \<and> 0 \<le> y"
    using assms by (auto simp add: in_grid_def split: if_splits)
  then obtain w where w: "width g = Inr w" and b: "x < w \<and> y < height g"
    using assms by (auto simp add: in_grid_def split: sum.splits)
  from xy b have h: "0 < height g"
    by linarith
  with w have "w = int (length (data g ! 0))"
    by (simp add: width_rows)
  with xy b h show ?thesis
    by simp
qed

lemma in_grid_iff:
  assumes "0 < height g"
  shows "in_grid g x y = Inr (0 \<le> x \<and> 0 \<le> y \<and> x < int (length (data g ! 0)) \<and> y < height g)"
  using assms by (auto simp add: in_grid_def width_rows)

lemma cell_in:
  assumes "0 < height g" and "rectangular g" and "ctype_of T \<noteq> T_bool"
    and "0 \<le> x" and "x < int (length (data g ! 0))" and "0 \<le> y" and "y < height g"
  shows "cell T g x y = Inr (data g ! nat y ! nat x)"
proof -
  have y: "nat y < length (data g)"
    using assms(6,7) by (simp add: height_def nat_less_iff)
  then have "int (length (data g ! nat y)) = int (length (data g ! 0))"
    using rectangular_rows [OF assms(2,1)] by simp
  with assms(3,4,5,6,7) show ?thesis
    unfolding cell_def by (intro at_xy_in) (simp_all add: height_def)
qed

section \<open>init\<close>

text \<open>
  C5. After \<open>init(v)\<close> every in-bounds cell of a rectangular grid should hold \<open>v\<close>. A
  default-constructed grid is rectangular and has no in-bounds cell, so the call should
  return and change nothing; the first loop test \<open>x < width()\<close> looks up row 0 of a vector
  that has no rows. For \<open>bool_2d\<close> the function does not compile, whatever the grid.
\<close>

theorem init_no_rows:
  "rectangular (array2d_new int_2d) \<and> height (array2d_new int_2d) = 0
   \<and> init int_2d 7 (array2d_new int_2d) = Inl Out_of_range
   \<and> init bool_2d True \<lparr>data = [[False]], cellsize = 1, xllcorner = 0, yllcorner = 0,
        data_cells = 1, no_data = True\<rparr> = Inl Ill_formed"
  by (simp add: rectangular_def height_def array2d_new_def init_def width_def vec_at_def
      int_2d_def bool_2d_def)

text \<open>
  Where the grid is rectangular with at least one row and the element type is not
  \<open>bool\<close>, \<open>init\<close> returns, keeps the dimensions and leaves \<open>v\<close> in every in-bounds cell.
\<close>

lemma init_y_closed:
  "0 \<le> x \<Longrightarrow> 0 \<le> y \<Longrightarrow> h = int (length d) \<Longrightarrow> \<forall>r\<in>set d. x < int (length r) \<Longrightarrow>
   ctype_of T \<noteq> T_bool \<Longrightarrow>
   init_y T v x y h d = Inr (take (nat y) d @ map (\<lambda>r. r[nat x := v]) (drop (nat y) d))"
proof (induction T v x y h d rule: init_y.induct)
  case (1 T val x y h d)
  show ?case
  proof (cases "y < h")
    case False
    with 1(4) show ?thesis
      by (subst init_y.simps) simp
  next
    case True
    let ?n = "nat y"
    let ?d1 = "d[?n := (d ! ?n)[nat x := val]]"
    have n: "?n < length d"
      using True 1(3,4) by simp
    then have row: "x < int (length (d ! ?n))"
      using 1(5) by simp
    have s: "set_xy T d x y val = Inr ?d1"
      using True 1(2,3,4,6) row by (simp add: set_xy_in)
    have rows: "\<forall>r\<in>set ?d1. x < int (length r)"
    proof
      fix r assume "r \<in> set ?d1"
      then have "r = (d ! ?n)[nat x := val] \<or> r \<in> set d"
        using set_update_subset_insert [of d ?n] by auto
      then show "x < int (length r)"
        using row 1(5) by auto
    qed
    have ih: "init_y T val x (y + 1) h ?d1
        = Inr (take (nat (y + 1)) ?d1 @ map (\<lambda>r. r[nat x := val]) (drop (nat (y + 1)) ?d1))"
      using 1(1) [OF True s 1(2)] 1(3,4,6) rows by simp
    have suc: "nat (y + 1) = Suc ?n"
      using 1(3) by simp
    have "take (Suc ?n) ?d1 = take ?n d @ [(d ! ?n)[nat x := val]]"
      using n by (simp add: take_Suc_conv_app_nth)
    moreover have "drop (Suc ?n) ?d1 = drop (Suc ?n) d"
      by simp
    moreover have "drop ?n d = d ! ?n # drop (Suc ?n) d"
      using n by (simp add: Cons_nth_drop_Suc)
    ultimately have "take (nat (y + 1)) ?d1 @ map (\<lambda>r. r[nat x := val]) (drop (nat (y + 1)) ?d1)
        = take ?n d @ map (\<lambda>r. r[nat x := val]) (drop ?n d)"
      by (simp add: suc)
    with ih s True show ?thesis
      by (subst init_y.simps) simp
  qed
qed

lemma init_y_column:
  assumes "0 \<le> x" and "h = int (length d)" and "\<forall>r\<in>set d. x < int (length r)"
    and "ctype_of T \<noteq> T_bool"
  shows "init_y T v x 0 h d = Inr (map (\<lambda>r. r[nat x := v]) d)"
  using init_y_closed [OF assms(1) _ assms(2,3,4), of 0 v] by simp

lemma init_x_spec:
  "0 \<le> x \<Longrightarrow> h = int (length d) \<Longrightarrow> \<forall>r\<in>set d. int (length r) = w \<Longrightarrow>
   ctype_of T \<noteq> T_bool \<Longrightarrow>
   \<exists>d'. init_x T v x w h d = Inr d' \<and> length d' = length d
     \<and> (\<forall>i<length d. length (d' ! i) = length (d ! i)
          \<and> (\<forall>j<length (d ! i). d' ! i ! j = (if nat x \<le> j then v else d ! i ! j)))"
proof (induction T v x w h d rule: init_x.induct)
  case (1 T val x w h d)
  show ?case
  proof (cases "x < w")
    case False
    have "\<forall>i<length d. \<forall>j<length (d ! i). \<not> nat x \<le> j"
    proof (intro allI impI)
      fix i j assume i: "i < length d" and j: "j < length (d ! i)"
      from i have "int (length (d ! i)) = w"
        using 1(4) by simp
      with j False show "\<not> nat x \<le> j"
        by linarith
    qed
    with False show ?thesis
      by (subst init_x.simps) simp
  next
    case True
    let ?d1 = "map (\<lambda>r. r[nat x := val]) d"
    have col: "init_y T val x 0 h d = Inr ?d1"
      using 1(2,3,4,5) True by (intro init_y_column) auto
    have "\<forall>r\<in>set ?d1. int (length r) = w"
      using 1(4) by auto
    then obtain d' where d': "init_x T val (x + 1) w h ?d1 = Inr d'" "length d' = length ?d1"
      "\<forall>i<length ?d1. length (d' ! i) = length (?d1 ! i)
          \<and> (\<forall>j<length (?d1 ! i). d' ! i ! j = (if nat (x + 1) \<le> j then val else ?d1 ! i ! j))"
      using 1(1) [OF True col] 1(2,3,5) by fastforce
    have "init_x T val x w h d = Inr d'"
      using True col d'(1) by (subst init_x.simps) simp
    moreover have "length d' = length d"
      using d'(2) by simp
    moreover have "\<forall>i<length d. length (d' ! i) = length (d ! i)
          \<and> (\<forall>j<length (d ! i). d' ! i ! j = (if nat x \<le> j then val else d ! i ! j))"
    proof (intro allI impI conjI)
      fix i assume i: "i < length d"
      then show "length (d' ! i) = length (d ! i)"
        using d'(3) by simp
      fix j assume j: "j < length (d ! i)"
      have "d' ! i ! j = (if nat (x + 1) \<le> j then val else (d ! i)[nat x := val] ! j)"
        using d'(3) i j by simp
      also have "\<dots> = (if nat x \<le> j then val else d ! i ! j)"
        using 1(2) j by (auto simp add: nth_list_update nat_add_distrib)
      finally show "d' ! i ! j = (if nat x \<le> j then val else d ! i ! j)" .
    qed
    ultimately show ?thesis
      by blast
  qed
qed

lemma init_with_rows:
  assumes "0 < height g" and "rectangular g" and "ctype_of T \<noteq> T_bool"
  shows "\<exists>g'. init T v g = Inr g' \<and> width g' = width g \<and> height g' = height g
           \<and> (\<forall>x y. in_grid g' x y = Inr True \<longrightarrow> cell T g' x y = Inr v)"
proof -
  let ?d = "data g"
  let ?w = "int (length (?d ! 0))"
  have rows: "\<forall>r\<in>set ?d. int (length r) = ?w"
    using assms(1,2) by (rule rectangular_rows [rotated])
  have len: "0 < length ?d"
    using assms(1) by (simp add: height_def)
  obtain d' where run: "init_x T v 0 ?w (height g) ?d = Inr d'"
    and len': "length d' = length ?d"
    and cells: "\<forall>i<length ?d. length (d' ! i) = length (?d ! i)
          \<and> (\<forall>j<length (?d ! i). d' ! i ! j = (if nat 0 \<le> j then v else ?d ! i ! j))"
    using init_x_spec [of 0 "height g" ?d ?w T v] rows assms(3) by (auto simp add: height_def)
  let ?g' = "g\<lparr>data := d'\<rparr>"
  have h': "height ?g' = height g"
    using len' by (simp add: height_def)
  have row0: "length (d' ! 0) = length (?d ! 0)"
    using cells len by simp
  have r: "init T v g = Inr ?g'"
    using run assms(1,3) by (simp add: init_def width_rows)
  have w': "width ?g' = width g"
    using assms(1) h' row0 by (simp add: width_rows)
  have "cell T ?g' x y = Inr v" if "in_grid ?g' x y = Inr True" for x y
  proof -
    have b: "0 \<le> x \<and> 0 \<le> y \<and> y < height ?g' \<and> x < int (length (data ?g' ! 0))"
      using in_grid_True [OF that] by simp
    then have y: "nat y < length ?d"
      using h' by (simp add: height_def nat_less_iff)
    then have "int (length (?d ! nat y)) = ?w"
      using rows by simp
    with b row0 have x: "nat x < length (?d ! nat y)"
      by (simp add: nat_less_iff)
    have "at_xy T d' x y = Inr (d' ! nat y ! nat x)"
      using b y x cells len' assms(3) by (intro at_xy_in) simp_all
    also have "d' ! nat y ! nat x = v"
      using cells y x by simp
    finally show ?thesis
      by (simp add: cell_def)
  qed
  with r w' h' show ?thesis
    by blast
qed

section \<open>operator==\<close>

text \<open>
  C4. \<open>A == B\<close> should return true iff the dimensions agree and every pair of cells is
  equal, and return false, without an error, when the dimensions differ. The comparison
  starts with \<open>width() != other.width()\<close>, which looks up row 0: two default-constructed
  grids, or a default-constructed grid against a grid of one cell, are a lookup in a vector
  that has no rows. For \<open>bool_2d\<close> the cells are read through references to temporaries.
\<close>

theorem equal_array2d_no_rows:
  "equal_array2d int_2d (array2d_new int_2d) (array2d_new int_2d) = Inl Out_of_range
   \<and> equal_array2d int_2d (array2d_new int_2d) \<lparr>data = [[1]], cellsize = 30, xllcorner = 5,
        yllcorner = 7, data_cells = 1, no_data = 0\<rparr> = Inl Out_of_range
   \<and> equal_array2d bool_2d
        \<lparr>data = [[True]], cellsize = 1, xllcorner = 0, yllcorner = 0, data_cells = 1,
         no_data = True\<rparr>
        \<lparr>data = [[True]], cellsize = 1, xllcorner = 0, yllcorner = 0, data_cells = 1,
         no_data = True\<rparr> = Inl Dangling_reference"
  by (simp add: equal_array2d_def array2d_new_def width_def height_def vec_at_def eq_x.simps
      eq_y.simps at_xy_def int_2d_def bool_2d_def)

text \<open>The comparison of two default-constructed grids does not return true.\<close>

theorem equal_array2d_no_rows_witness:
  "equal_array2d int_2d (array2d_new int_2d) (array2d_new int_2d) \<noteq> Inr True"
  using equal_array2d_no_rows by simp

text \<open>
  Where both grids are rectangular with at least one row and the element type is not
  \<open>bool\<close>, the result is as C4 says, and the metadata play no role.
\<close>

lemma eq_y_spec:
  "0 \<le> x \<Longrightarrow> 0 \<le> y \<Longrightarrow> h = int (length d) \<Longrightarrow> length e = length d \<Longrightarrow>
   \<forall>r\<in>set d. x < int (length r) \<Longrightarrow> \<forall>r\<in>set e. x < int (length r) \<Longrightarrow>
   ctype_of T \<noteq> T_bool \<Longrightarrow>
   eq_y T d e x y h = Inr (\<forall>i. nat y \<le> i \<and> i < length d \<longrightarrow> d ! i ! nat x = e ! i ! nat x)"
proof (induction T d e x y h rule: eq_y.induct)
  case (1 T d e x y h)
  show ?case
  proof (cases "y < h")
    case False
    with 1(4) show ?thesis
      by (subst eq_y.simps) auto
  next
    case True
    let ?n = "nat y"
    have n: "?n < length d" "?n < length e"
      using True 1(3,4,5) by simp_all
    have a: "at_xy T d x y = Inr (d ! ?n ! nat x)"
      using True 1(2,3,4,6,8) n by (intro at_xy_in) simp_all
    have b: "at_xy T e x y = Inr (e ! ?n ! nat x)"
      using True 1(2,3,4,5,7,8) n by (intro at_xy_in) simp_all
    show ?thesis
    proof (cases "d ! ?n ! nat x = e ! ?n ! nat x")
      case False
      then have "\<not> (\<forall>i. ?n \<le> i \<and> i < length d \<longrightarrow> d ! i ! nat x = e ! i ! nat x)"
        using n by auto
      with False True a b show ?thesis
        by (subst eq_y.simps) simp
    next
      case same: True
      have "eq_y T d e x (y + 1) h
          = Inr (\<forall>i. nat (y + 1) \<le> i \<and> i < length d \<longrightarrow> d ! i ! nat x = e ! i ! nat x)"
        using 1(1) [OF True a b _ 1(2)] same 1(3,4,5,6,7,8) by simp
      moreover have "(\<forall>i. nat (y + 1) \<le> i \<and> i < length d \<longrightarrow> d ! i ! nat x = e ! i ! nat x)
          = (\<forall>i. ?n \<le> i \<and> i < length d \<longrightarrow> d ! i ! nat x = e ! i ! nat x)"
      proof -
        have "?n \<le> i \<longleftrightarrow> i = ?n \<or> nat (y + 1) \<le> i" for i
          using 1(3) by auto
        with same show ?thesis
          by auto
      qed
      ultimately show ?thesis
        using True a b same by (subst eq_y.simps) simp
    qed
  qed
qed

lemma eq_x_spec:
  "0 \<le> x \<Longrightarrow> h = int (length d) \<Longrightarrow> length e = length d \<Longrightarrow>
   \<forall>r\<in>set d. int (length r) = w \<Longrightarrow> \<forall>r\<in>set e. int (length r) = w \<Longrightarrow>
   ctype_of T \<noteq> T_bool \<Longrightarrow>
   eq_x T d e x w h
   = Inr (\<forall>i j. nat x \<le> j \<and> j < nat w \<and> i < length d \<longrightarrow> d ! i ! j = e ! i ! j)"
proof (induction T d e x w h rule: eq_x.induct)
  case (1 T d e x w h)
  show ?case
  proof (cases "x < w")
    case False
    then have "\<not> (nat x \<le> j \<and> j < nat w)" for j
      by linarith
    then have "\<forall>i j. nat x \<le> j \<and> j < nat w \<and> i < length d \<longrightarrow> d ! i ! j = e ! i ! j"
      by blast
    with False show ?thesis
      by (subst eq_x.simps) simp
  next
    case True
    let ?col = "\<forall>i. nat 0 \<le> i \<and> i < length d \<longrightarrow> d ! i ! nat x = e ! i ! nat x"
    have col: "eq_y T d e x 0 h = Inr ?col"
      using True 1(2,3,4,5,6,7) by (intro eq_y_spec) auto
    show ?thesis
    proof (cases ?col)
      case False
      then have colF: "eq_y T d e x 0 h = Inr False"
        using col by simp
      from False obtain i where i: "i < length d" "d ! i ! nat x \<noteq> e ! i ! nat x"
        by auto
      have "nat x \<le> nat x \<and> nat x < nat w \<and> i < length d"
        using True 1(2) i(1) by simp
      with i(2) have res: "\<not> (\<forall>i j. nat x \<le> j \<and> j < nat w \<and> i < length d \<longrightarrow> d ! i ! j = e ! i ! j)"
        by blast
      show ?thesis
        by (subst eq_x.simps) (simp add: True colF res)
    next
      case same: True
      then have colT: "eq_y T d e x 0 h = Inr True"
        using col by simp
      have ih: "eq_x T d e (x + 1) w h
          = Inr (\<forall>i j. nat (x + 1) \<le> j \<and> j < nat w \<and> i < length d \<longrightarrow> d ! i ! j = e ! i ! j)"
        using 1(1) [OF True colT] 1(2,3,4,5,6,7) by simp
      have eqv: "(\<forall>i j. nat (x + 1) \<le> j \<and> j < nat w \<and> i < length d \<longrightarrow> d ! i ! j = e ! i ! j)
          = (\<forall>i j. nat x \<le> j \<and> j < nat w \<and> i < length d \<longrightarrow> d ! i ! j = e ! i ! j)"
      proof -
        have "nat x \<le> j \<longleftrightarrow> j = nat x \<or> nat (x + 1) \<le> j" for j
          using 1(2) by auto
        with same show ?thesis
          by auto
      qed
      from ih have step: "eq_x T d e (x + 1) w h
          = Inr (\<forall>i j. nat x \<le> j \<and> j < nat w \<and> i < length d \<longrightarrow> d ! i ! j = e ! i ! j)"
        by (simp only: eqv)
      show ?thesis
        by (subst eq_x.simps) (simp add: True colT step)
    qed
  qed
qed

lemma equal_array2d_data:
  assumes "data A' = data A" and "data B' = data B"
  shows "equal_array2d T A' B' = equal_array2d T A B"
proof -
  have "width A' = width A" and "width B' = width B"
    and "height A' = height A" and "height B' = height B"
    using assms by (simp_all add: width_def height_def)
  then show ?thesis
    using assms by (simp add: equal_array2d_def split: sum.splits)
qed

lemma equal_array2d_with_rows:
  assumes "0 < height A" and "0 < height B" and "rectangular A" and "rectangular B"
    and "ctype_of T \<noteq> T_bool"
  shows "equal_array2d T A B
         = Inr (width A = width B \<and> height A = height B
                \<and> (\<forall>x y. in_grid A x y = Inr True \<longrightarrow> cell T A x y = cell T B x y))"
proof (cases "width A \<noteq> width B \<or> height A \<noteq> height B")
  case True
  then show ?thesis
    using assms(1,2) by (auto simp add: equal_array2d_def width_rows)
next
  case False
  let ?w = "int (length (data A ! 0))"
  have wA: "width A = Inr ?w" and wB: "width B = Inr ?w"
    using False assms(1,2) by (simp_all add: width_rows)
  have w0: "int (length (data B ! 0)) = ?w"
    using wB assms(2) by (simp add: width_rows)
  have len: "length (data B) = length (data A)"
    using False by (simp add: height_def)
  have rowsA: "\<forall>r\<in>set (data A). int (length r) = ?w"
    using assms(3,1) by (rule rectangular_rows)
  have rowsB: "\<forall>r\<in>set (data B). int (length r) = ?w"
    using rectangular_rows [OF assms(4,2)] w0 by simp
  have run: "equal_array2d T A B
      = Inr (\<forall>i j. nat 0 \<le> j \<and> j < nat ?w \<and> i < length (data A) \<longrightarrow> data A ! i ! j = data B ! i ! j)"
    using False wA wB eq_x_spec [of 0 "height A" "data A" "data B" ?w T] len rowsA rowsB assms(5)
    by (simp add: equal_array2d_def height_def)
  have "(\<forall>i j. nat 0 \<le> j \<and> j < nat ?w \<and> i < length (data A) \<longrightarrow> data A ! i ! j = data B ! i ! j)
      = (\<forall>x y. in_grid A x y = Inr True \<longrightarrow> cell T A x y = cell T B x y)"
  proof (intro iffI allI impI)
    fix x y
    assume all: "\<forall>i j. nat 0 \<le> j \<and> j < nat ?w \<and> i < length (data A) \<longrightarrow> data A ! i ! j = data B ! i ! j"
      and "in_grid A x y = Inr True"
    then have b: "0 \<le> x" "0 \<le> y" "y < height A" "x < ?w"
      using in_grid_True [of A x y] by simp_all
    have "cell T A x y = Inr (data A ! nat y ! nat x)"
      using assms(1,3,5) b by (intro cell_in) simp_all
    moreover have "cell T B x y = Inr (data B ! nat y ! nat x)"
      using assms(2,4,5) b w0 False by (intro cell_in) simp_all
    moreover have "data A ! nat y ! nat x = data B ! nat y ! nat x"
      using all b by (simp add: height_def nat_less_iff)
    ultimately show "cell T A x y = cell T B x y"
      by simp
  next
    fix i j
    assume cells: "\<forall>x y. in_grid A x y = Inr True \<longrightarrow> cell T A x y = cell T B x y"
      and ij: "nat 0 \<le> j \<and> j < nat ?w \<and> i < length (data A)"
    then have b: "0 \<le> int j" "0 \<le> int i" "int i < height A" "int j < ?w"
      by (simp_all add: height_def)
    then have "in_grid A (int j) (int i) = Inr True"
      using assms(1) by (simp add: in_grid_iff)
    with cells have "cell T A (int j) (int i) = cell T B (int j) (int i)"
      by blast
    moreover have "cell T A (int j) (int i) = Inr (data A ! nat (int i) ! nat (int j))"
      using assms(1,3,5) b by (intro cell_in)
    moreover have "cell T B (int j) (int i) = Inr (data B ! nat (int i) ! nat (int j))"
      using assms(2,4,5) b w0 False by (intro cell_in) simp_all
    ultimately show "data A ! i ! j = data B ! i ! j"
      by simp
  qed
  with run False show ?thesis
    by simp
qed

section \<open>copyprops and the converting constructor\<close>








end
